theory Spec2Isabelle
  imports Main
begin

section \<open>The packaging script \<open>setup.py\<close>\<close>

text \<open>
  \<open>setup.py\<close> is a module whose body is one call of \<open>distutils.core.setup\<close> with seven
  keyword arguments. The record below holds the keyword arguments of that call, under the
  keywords' own names (the prefix \<open>kw_\<close> keeps them apart from the names of the pipeline's
  data model further down).
\<close>

record setup_kwargs =
  kw_name :: string
  kw_version :: string
  kw_description :: string
  kw_author :: string
  kw_author_email :: string
  kw_scripts :: "string list"
  kw_data_files :: "(string \<times> string list) list"

text \<open>
  What a run of the script can observe of its surroundings: the command line, the process
  environment and the working directory. The module body reads none of them.
\<close>

record run_env =
  argv :: "string list"
  environ :: "(string \<times> string) list"
  cwd :: string

text \<open>The keyword arguments that a run of \<open>setup.py\<close> in the environment \<open>e\<close> passes to
  \<open>distutils.core.setup\<close> (the name \<open>setup\<close> itself is a keyword of Isabelle).\<close>

definition setup_py :: "run_env \<Rightarrow> setup_kwargs" where
  "setup_py e =
     \<lparr> kw_name = ''pimage'',
       kw_version = ''0.1'',
       kw_description = ''Create and manage Raspberry PI images'',
       kw_author = ''Antonio Serrano Hernandez'',
       kw_author_email = ''toni.serranoh@gmail.com'',
       kw_scripts = [''src/pimage''],
       kw_data_files = [(''share/pimage/qemu'', [''files/qemu/qemu-arm''])] \<rparr>"

text \<open>
  The data files of a call, flattened to pairs of target directory and shipped file, in the
  order of the \<open>data_files\<close> argument.
\<close>

definition shipped_data_files :: "setup_kwargs \<Rightarrow> (string \<times> string) list" where
  "shipped_data_files k = concat (map (\<lambda>(d, fs). map (\<lambda>f. (d, f)) fs) (kw_data_files k))"






section \<open>The ledger of acquired resources\<close>

text \<open>
  Modelled from the spec: the script \<open>src/pimage\<close> that \<open>setup.py\<close> installs is not among
  the source files, so the data of a build session is taken from the specification's data
  model. A resource handle is a tagged union over loop device, mount point, emulation
  registration and open file descriptor; each alternative carries the system identifier
  needed to release it (loop device number, mount path, interpreter name, descriptor
  number), and every handle carries its acquisition sequence number.
\<close>

datatype resource =
    LoopDevice nat
  | MountPoint string
  | EmulationRegistration string
  | OpenFileDescriptor nat

record resource_handle =
  resource :: resource
  seq_no :: nat

text \<open>
  Modelled from the spec: the image plan (total byte size and the ordered partition
  specifications) of the missing script, with the fields the specification lists.
\<close>

record partition_spec =
  name :: string
  size_bytes :: nat
  filesystem_type :: string
  mount_point :: string
  flags :: "string list"

record image_plan =
  total_bytes :: nat
  partitions :: "partition_spec list"

datatype session_status = Pending | Succeeded | Failed string

text \<open>
  Modelled from the spec: the build session of the missing script: backing file path, image
  plan, the live handles in acquisition order (oldest first, so release order is the
  reverse) and the terminal status. \<open>next_seq\<close> is the counter the monotonically
  increasing sequence numbers are drawn from.
\<close>

record build_session =
  backing_file :: string
  plan :: image_plan
  live :: "resource_handle list"
  next_seq :: nat
  status :: session_status

text \<open>Modelled from the spec: a session is created, with no live handle, when a build begins.\<close>

definition begin_session :: "string \<Rightarrow> image_plan \<Rightarrow> build_session" where
  "begin_session f p =
     \<lparr> backing_file = f, plan = p, live = [], next_seq = 0, status = Pending \<rparr>"

text \<open>
  Modelled from the spec: a successful acquire pushes a handle for the resource onto the
  session's live list, numbered with the next sequence number.
\<close>

definition push_handle :: "resource \<Rightarrow> build_session \<Rightarrow> build_session" where
  "push_handle r s =
     s\<lparr> live := live s @ [\<lparr> resource = r, seq_no = next_seq s \<rparr>],
        next_seq := Suc (next_seq s) \<rparr>"

text \<open>
  Modelled from the spec: one acquire call of a component. Its outcome comes from the host:
  \<open>Inl reason\<close> when the call failed (nothing is recorded), \<open>Inr r\<close> when it succeeded in
  acquiring \<open>r\<close> (the handle is pushed).
\<close>

definition acquire :: "string + resource \<Rightarrow> build_session \<Rightarrow> build_session" where
  "acquire outcome s = (case outcome of Inl reason \<Rightarrow> s | Inr r \<Rightarrow> push_handle r s)"

text \<open>The acquire calls of a session, in the order they are made.\<close>

fun acquire_all :: "(string + resource) list \<Rightarrow> build_session \<Rightarrow> build_session" where
  "acquire_all [] s = s"
| "acquire_all (outcome # outcomes) s = acquire_all outcomes (acquire outcome s)"


section \<open>The teardown coordinator\<close>










section \<open>A host that records the calls it receives\<close>







section \<open>The loop device manager\<close>

text \<open>
  Modelled from the spec: the host's pool of loop devices as the missing script's loop
  device manager sees it. Slot \<open>n\<close> of the pool is the device \<open>/dev/loop\<close>\<open>n\<close>; it is free
  (\<open>None\<close>) or bound to a region of a backing file.
\<close>

record loop_binding =
  bound_file :: string
  byte_offset :: nat
  byte_size :: nat

type_synonym loop_pool = "loop_binding option list"

datatype loop_error = NoFreeDevice | Busy

text \<open>Modelled from the spec: a loop handle names the device that \<open>attach\<close> bound.\<close>

record loop_handle =
  device :: nat

fun first_free :: "loop_pool \<Rightarrow> nat option" where
  "first_free [] = None"
| "first_free (None # slots) = Some 0"
| "first_free (Some b # slots) = map_option Suc (first_free slots)"

text \<open>
  Modelled from the spec: \<open>attach(file, byte_offset, byte_size)\<close> binds the region to a free
  loop device and pushes the resource handle onto the session's live list before it
  returns; it fails with \<open>Busy\<close> when the region is already bound and with \<open>NoFreeDevice\<close>
  when the pool is exhausted.
\<close>

definition attach ::
  "string \<Rightarrow> nat \<Rightarrow> nat \<Rightarrow> loop_pool \<Rightarrow> build_session
    \<Rightarrow> loop_error + (loop_handle \<times> loop_pool \<times> build_session)" where
  "attach file off sz pool s =
     (let b = \<lparr> bound_file = file, byte_offset = off, byte_size = sz \<rparr> in
      if Some b \<in> set pool then Inl Busy
      else (case first_free pool of
              None \<Rightarrow> Inl NoFreeDevice
            | Some n \<Rightarrow>
                Inr (\<lparr> device = n \<rparr>, pool[n := Some b], push_handle (LoopDevice n) s)))"

text \<open>A handle is attached while its device is a slot of the pool that is bound.\<close>

definition is_attached :: "loop_handle \<Rightarrow> loop_pool \<Rightarrow> bool" where
  "is_attached h pool = (device h < length pool \<and> pool ! device h \<noteq> None)"

text \<open>
  Modelled from the spec: \<open>detach(LoopHandle)\<close> unbinds the handle's device; on a handle
  that is already detached it is a no-op, not an error.
\<close>

definition detach :: "loop_handle \<Rightarrow> loop_pool \<Rightarrow> loop_error + loop_pool" where
  "detach h pool =
     (if is_attached h pool then Inr (pool[device h := None]) else Inr pool)"

section \<open>Concrete runs\<close>

definition demo_plan :: image_plan where
  "demo_plan = \<lparr> total_bytes = 268435456, partitions = [] \<rparr>"




text \<open>
  Five acquire calls of a session, the second of which fails; the session after them, its
  build failed; its handles, newest first; and the session once drained.
\<close>

definition demo_outcomes :: "(string + resource) list" where
  "demo_outcomes =
     [Inr (LoopDevice 0), Inl ''NoFreeDevice'', Inr (MountPoint ''/mnt/root''),
      Inr (EmulationRegistration ''qemu-arm''), Inr (OpenFileDescriptor 3)]"

definition demo_session :: build_session where
  "demo_session =
     (acquire_all demo_outcomes (begin_session ''pi.img'' demo_plan))
       \<lparr> status := Failed ''NoFreeDevice'' \<rparr>"

definition demo_handles :: "resource_handle list" where
  "demo_handles =
     [\<lparr> resource = OpenFileDescriptor 3, seq_no = 3 \<rparr>,
      \<lparr> resource = EmulationRegistration ''qemu-arm'', seq_no = 2 \<rparr>,
      \<lparr> resource = MountPoint ''/mnt/root'', seq_no = 1 \<rparr>,
      \<lparr> resource = LoopDevice 0, seq_no = 0 \<rparr>]"


section \<open>Properties of the packaging script\<close>

text \<open>
  Claim C8: the setup call declares exactly one executable script, the file \<open>src/pimage\<close>;
  it is the whole installed command surface.
\<close>

theorem setup_one_script:
  "kw_scripts (setup_py e) = [''src/pimage''] \<and> length (kw_scripts (setup_py e)) = 1"
  by (simp add: setup_py_def)

text \<open>
  Claim C9: the setup call ships exactly one data file, \<open>files/qemu/qemu-arm\<close>, into the
  directory \<open>share/pimage/qemu\<close>, and no other data file.
\<close>

theorem setup_one_data_file:
  "kw_data_files (setup_py e) = [(''share/pimage/qemu'', [''files/qemu/qemu-arm''])]
   \<and> shipped_data_files (setup_py e) = [(''share/pimage/qemu'', ''files/qemu/qemu-arm'')]
   \<and> length (shipped_data_files (setup_py e)) = 1"
  by (simp add: setup_py_def shipped_data_files_def)




section \<open>Properties of the teardown coordinator\<close>












text \<open>The runs of \<open>unwind\<close> on the demonstration session, evaluated on the three hosts.\<close>

lemma demo_live: "live demo_session = rev demo_handles"
  by (simp add: demo_session_def demo_outcomes_def demo_handles_def begin_session_def
        acquire_def push_handle_def)






section \<open>Properties of the loop device manager\<close>

text \<open>
  Claim C3: detaching a loop handle a second time succeeds as a no-op. The first call
  succeeds and leaves the handle detached; the second call on that state is not an error
  and returns the state unchanged; and so does \<open>detach\<close> on any handle that is not attached.
\<close>

theorem detach_twice_is_noop:
  "(\<exists>pool1. detach h pool = Inr pool1 \<and> \<not> is_attached h pool1 \<and> detach h pool1 = Inr pool1)
   \<and> (\<not> is_attached h pool \<longrightarrow> detach h pool = Inr pool)"
  by (auto simp: detach_def is_attached_def)

theorem detach_twice_is_noop_witness:
  "attach ''pi.img'' 4194304 67108864 [None, None] (begin_session ''pi.img'' demo_plan)
     = Inr (\<lparr> device = 0 \<rparr>,
            [Some \<lparr> bound_file = ''pi.img'', byte_offset = 4194304, byte_size = 67108864 \<rparr>, None],
            push_handle (LoopDevice 0) (begin_session ''pi.img'' demo_plan))
   \<and> detach \<lparr> device = 0 \<rparr>
        [Some \<lparr> bound_file = ''pi.img'', byte_offset = 4194304, byte_size = 67108864 \<rparr>, None]
       = Inr [None, None]
   \<and> \<not> is_attached \<lparr> device = 0 \<rparr> [None, None]
   \<and> detach \<lparr> device = 0 \<rparr> [None, None] = Inr [None, None]"
  using detach_twice_is_noop [of "\<lparr> device = 0 \<rparr>" "[None, None]"]
    detach_twice_is_noop [of "\<lparr> device = 0 \<rparr>"
      "[Some \<lparr> bound_file = ''pi.img'', byte_offset = 4194304, byte_size = 67108864 \<rparr>, None]"]
  by (simp add: attach_def detach_def is_attached_def)

end
